theory Spec2Isabelle
  imports Main
begin

section \<open>The native edit context (nativeEditContext.ts)\<close>

text \<open>
  The adapter is a class with private mutable fields whose methods call external
  collaborators (the view controller, the view model, the clipboard service, the host
  \<open>EditContext\<close> surface). The fields become a record that every handler takes and
  returns; the calls to collaborators become a list of effects, in program order.
  Values that a handler reads from a collaborator (the cursor position, the clipboard
  text, the text of the host surface) are arguments of the handler.
  Offsets are JavaScript numbers holding integers and are modelled as \<open>int\<close>.
  A JavaScript string is a sequence of code units; it is modelled as \<open>string\<close>,
  one \<open>char\<close> for each code unit. The \<open>console.log\<close> calls are left out.
\<close>

subsection \<open>Data\<close>

record Position =
  lineNumber :: int
  column :: int

record Range =
  startLineNumber :: int
  startColumn :: int
  endLineNumber :: int
  endColumn :: int

record EditContextState =
  content :: string
  selectionStartOffset :: int
  selectionEndOffset :: int
  rangeOfContent :: Range

text \<open>\<open>ITypeData\<close>: the edit intent handed to \<open>_onType\<close>. Its field \<open>text\<close> is
  written \<open>text'\<close>.\<close>

record ITypeData =
  text' :: string
  replacePrevCharCnt :: int
  replaceNextCharCnt :: int
  positionDelta :: int

text \<open>The payload of a \<open>textupdate\<close> event; its field \<open>text\<close> is written \<open>ev_text\<close>.\<close>

record TextUpdateEvent =
  ev_text :: string
  updateRangeStart :: int
  updateRangeEnd :: int

text \<open>What the adapter reads from the host \<open>EditContext\<close> object: \<open>text\<close>,
  \<open>selectionStart\<close> and \<open>selectionEnd\<close> (\<open>unsigned long\<close> attributes).\<close>

record EditContext =
  ec_text :: string
  selectionStart :: nat
  selectionEnd :: nat

record TextFormat =
  rangeStart :: int
  rangeEnd :: int
  underlineStyle :: string
  underlineThickness :: string

record ModelDecorationOptions =
  description :: string
  inlineClassName :: string

record IModelDeltaDecoration =
  range :: Range
  options :: ModelDecorationOptions

record ClipboardStoredMetadata =
  version :: nat
  isFromEmptySelection :: "bool option"
  multicursorText :: "string list option"
  mode :: "string option"

text \<open>The result of \<open>getDataToCopy\<close> (clipboardUtils, not part of these sources), as
  far as the adapter reads it.\<close>

record ClipboardDataToCopy =
  dc_isFromEmptySelection :: bool
  dc_multicursorText :: "string list option"
  dc_text :: string
  dc_mode :: "string option"

datatype KeyCode =
  KEY_IN_COMPOSITION | Enter | KeyV | KeyX
  | F5 | F9 | F10 | F11 | KEY_D | KEY_I
  | OtherKey nat

record StandardKeyboardEvent =
  keyCode :: KeyCode
  metaKey :: bool

text \<open>The calls the adapter makes on its collaborators.\<close>

datatype Effect =
    VC_type string
  | VC_compositionType string int int int
  | VC_paste string bool "string list option" "string option"
  | VC_cut
  | VC_compositionStart
  | VC_compositionEnd
  | VC_emitKeyDown StandardKeyboardEvent
  | VC_emitKeyUp StandardKeyboardEvent
  | VM_setHasFocus bool
  | VM_onCompositionStart
  | VM_onCompositionEnd
  | DOM_focus
  | Event_stopPropagation
  | Event_preventDefault
  | EC_updateText int int string
  | EC_updateSelection int int
  | Clipboard_readText
  | Clipboard_writeText string
  | Metadata_get string
  | Metadata_set string ClipboardStoredMetadata
  | Model_deltaDecorations "string list" "IModelDeltaDecoration list"

text \<open>The private fields of \<open>NativeEditContext\<close> that the handlers below read or
  write. (\<open>_parent\<close> and \<open>_renderingContext\<close> are used by the bounds computation
  only.)\<close>

record NativeEditContext =
  currentEditContextState :: "EditContextState option"
  decorations :: "string list"
  compositionRange :: "Range option"
  hasFocus :: bool

subsection \<open>Language primitives\<close>

text \<open>\<open>String.prototype.substring(start, end)\<close> on integer arguments: both are
  clamped to \<open>[0, length]\<close> and swapped when \<open>start > end\<close>. An absent \<open>end\<close> is
  the length of the string.\<close>

definition substring :: "string \<Rightarrow> int \<Rightarrow> int \<Rightarrow> string" where
  "substring s start end' =
     (let len = int (length s);
          intStart = min (max start 0) len;
          intEnd = min (max end' 0) len;
          from = min intStart intEnd;
          to = max intStart intEnd
      in take (nat (to - from)) (drop (nat from) s))"

definition substringFrom :: "string \<Rightarrow> int \<Rightarrow> string" where
  "substringFrom s start = substring s start (int (length s))"

text \<open>\<open>ToBoolean\<close> of a number that holds an integer.\<close>

definition truthy :: "int \<Rightarrow> bool" where
  "truthy n = (n \<noteq> 0)"

definition MAX_SAFE_INTEGER :: int where
  "MAX_SAFE_INTEGER = 2 ^ 53 - 1"

subsection \<open>Typing\<close>

definition onType :: "ITypeData \<Rightarrow> Effect list" where
  "onType typeInput =
     (if truthy (replacePrevCharCnt typeInput) \<or> truthy (replaceNextCharCnt typeInput)
         \<or> truthy (positionDelta typeInput)
      then [VC_compositionType (text' typeInput) (replacePrevCharCnt typeInput)
              (replaceNextCharCnt typeInput) (positionDelta typeInput)]
      else [VC_type (text' typeInput)])"

definition emitTypeEvent :: "TextUpdateEvent \<Rightarrow> NativeEditContext \<Rightarrow> NativeEditContext \<times> Effect list" where
  "emitTypeEvent e this =
     (case currentEditContextState this of
        None \<Rightarrow> (this, [])
      | Some st \<Rightarrow>
          (let replaceNextCharCnt0 =
                 (if updateRangeEnd e > selectionEndOffset st
                  then updateRangeEnd e - selectionEndOffset st else 0);
               replacePrevCharCnt0 =
                 (if updateRangeStart e < selectionStartOffset st
                  then selectionStartOffset st - updateRangeStart e else 0);
               text0 = [];
               text1 =
                 (if selectionStartOffset st < updateRangeStart e
                  then text0 @ substring (content st) (selectionStartOffset st) (updateRangeStart e)
                  else text0);
               text2 = text1 @ ev_text e;
               text3 =
                 (if selectionEndOffset st > updateRangeEnd e
                  then text2 @ substring (content st) (updateRangeEnd e) (selectionEndOffset st)
                  else text2);
               typeInput = \<lparr> text' = text3, replacePrevCharCnt = replacePrevCharCnt0,
                             replaceNextCharCnt = replaceNextCharCnt0, positionDelta = 0 \<rparr>
           in (this, onType typeInput)))"

text \<open>\<open>_emitAddNewLineEvent\<close>, given the host surface it reads.\<close>

definition emitAddNewLineEvent :: "EditContext \<Rightarrow> Effect list" where
  "emitAddNewLineEvent editContext =
     (let textBeforeSelection = substring (ec_text editContext) 0 (int (selectionStart editContext));
          textAfterSelection = substringFrom (ec_text editContext) (int (selectionEnd editContext));
          textAfterAddingNewLine = textBeforeSelection @ [CHR 0x0A] @ textAfterSelection
      in EC_updateText 0 MAX_SAFE_INTEGER textAfterAddingNewLine
         # onType \<lparr> text' = [CHR 0x0A], replacePrevCharCnt = 0, replaceNextCharCnt = 0,
                     positionDelta = 0 \<rparr>)"

subsection \<open>Focus\<close>

definition setHasFocus :: "bool \<Rightarrow> NativeEditContext \<Rightarrow> NativeEditContext \<times> Effect list" where
  "setHasFocus newHasFocus this =
     (if hasFocus this = newHasFocus then (this, [])
      else (let this1 = this\<lparr> hasFocus := newHasFocus \<rparr>
            in if hasFocus this1 then (this1, [DOM_focus, VM_setHasFocus True])
               else (this1, [VM_setHasFocus False])))"

subsection \<open>Positions and ranges\<close>

text \<open>Modelled from the spec: the classes \<open>Position\<close> and \<open>Range\<close>
  (vs/editor/common/core) are not part of these sources. The spec describes a range as a
  line/column span, composition start as capturing the cursor position as a zero-length
  range, and a text update as moving the range's end to the cursor position.\<close>

definition fromPositions :: "Position \<Rightarrow> Position \<Rightarrow> Range" where
  "fromPositions start end' =
     \<lparr> startLineNumber = lineNumber start, startColumn = column start,
       endLineNumber = lineNumber end', endColumn = column end' \<rparr>"

definition setEndPosition :: "Range \<Rightarrow> int \<Rightarrow> int \<Rightarrow> Range" where
  "setEndPosition r endLine endCol = r\<lparr> endLineNumber := endLine, endColumn := endCol \<rparr>"

definition getStartPosition :: "Range \<Rightarrow> Position" where
  "getStartPosition r = \<lparr> lineNumber = startLineNumber r, column = startColumn r \<rparr>"



subsection \<open>Composition and text updates\<close>

text \<open>Each listener takes what it reads from the view model: the position of the
  primary cursor at the time of the event.\<close>

definition textupdateListener :: "Position \<Rightarrow> TextUpdateEvent \<Rightarrow> NativeEditContext \<Rightarrow> NativeEditContext \<times> Effect list" where
  "textupdateListener position e this =
     (let this1 =
            (case compositionRange this of
               Some r \<Rightarrow>
                 this\<lparr> compositionRange :=
                          Some (setEndPosition r (lineNumber position) (column position)) \<rparr>
             | None \<Rightarrow> this)
      in emitTypeEvent e this1)"

definition compositionstartListener :: "Position \<Rightarrow> NativeEditContext \<Rightarrow> NativeEditContext \<times> Effect list" where
  "compositionstartListener position this =
     (this\<lparr> compositionRange := Some (fromPositions position position) \<rparr>,
      [VC_compositionStart, VM_onCompositionStart])"

definition compositionendListener :: "NativeEditContext \<Rightarrow> NativeEditContext \<times> Effect list" where
  "compositionendListener this =
     (this\<lparr> compositionRange := None \<rparr>, [VC_compositionEnd, VM_onCompositionEnd])"

subsection \<open>Text format updates\<close>

text \<open>The text model, as far as \<open>_handleTextFormatUpdate\<close> calls it.\<close>

record TextModel =
  getOffsetAt :: "Position \<Rightarrow> int"
  getPositionAt :: "int \<Rightarrow> Position"
  deltaDecorations :: "string list \<Rightarrow> IModelDeltaDecoration list \<Rightarrow> string list"

text \<open>\<open>toLowerCase\<close> on the ASCII letters and \<open>join\<close> of an array of strings.\<close>

definition toLowerCase :: "string \<Rightarrow> string" where
  "toLowerCase s =
     map (\<lambda>c. let n = (of_char c :: nat) in if 65 \<le> n \<and> n \<le> 90 then char_of (n + 32) else c) s"

fun join :: "string list \<Rightarrow> string \<Rightarrow> string" where
  "join [] sep = []"
| "join [x] sep = x"
| "join (x # y # ys) sep = x @ sep @ join (y # ys) sep"

definition handleTextFormatUpdate :: "TextModel \<Rightarrow> TextFormat list \<Rightarrow> NativeEditContext \<Rightarrow> NativeEditContext \<times> Effect list" where
  "handleTextFormatUpdate textModel formats this =
     (case currentEditContextState this of
        None \<Rightarrow> (this, [])
      | Some st \<Rightarrow>
          (let rangeOfEditContextText = rangeOfContent st;
               decos =
                 map (\<lambda>f.
                   let offsetOfEditContextText =
                         getOffsetAt textModel (getStartPosition rangeOfEditContextText);
                       startPositionOfDecoration =
                         getPositionAt textModel (offsetOfEditContextText + rangeStart f);
                       endPositionOfDecoration =
                         getPositionAt textModel (offsetOfEditContextText + rangeEnd f);
                       decorationRange =
                         fromPositions startPositionOfDecoration endPositionOfDecoration;
                       classNames =
                         [''ime'',
                          ''underline-style-'' @ toLowerCase (underlineStyle f),
                          ''underline-thickness-'' @ toLowerCase (underlineThickness f)]
                   in \<lparr> range = decorationRange,
                        options = \<lparr> description = ''textFormatDecoration'',
                                    inlineClassName = join classNames '' '' \<rparr> \<rparr>) formats
           in (this\<lparr> decorations := deltaDecorations textModel (decorations this) decos \<rparr>,
               [Model_deltaDecorations (decorations this) decos])))"

subsection \<open>Render pass\<close>

text \<open>\<open>_updateEditContext\<close>, given the snapshot that \<open>_getEditContextState\<close>
  computes from the view model: the snapshot is stored and mirrored into the host
  surface.\<close>

definition updateEditContext :: "EditContextState \<Rightarrow> NativeEditContext \<Rightarrow> NativeEditContext \<times> Effect list" where
  "updateEditContext st this =
     (this\<lparr> currentEditContextState := Some st \<rparr>,
      [EC_updateText 0 MAX_SAFE_INTEGER (content st),
       EC_updateSelection (selectionStartOffset st) (selectionEndOffset st)])"

subsection \<open>Clipboard\<close>

text \<open>\<open>replace\<close> with the global pattern carriage return, line feed and the
  replacement line feed: every match, found from left to right, becomes one line feed.\<close>

fun replaceCRLF :: "string \<Rightarrow> string" where
  "replaceCRLF (c # d # cs) =
     (if c = CHR 0x0D \<and> d = CHR 0x0A then CHR 0x0A # replaceCRLF cs
      else c # replaceCRLF (d # cs))"
| "replaceCRLF cs = cs"

text \<open>\<open>_ensureClipboardGetsEditorSelection\<close>, given \<open>browser.isFirefox\<close> and the
  result of \<open>getDataToCopy\<close>.\<close>

definition ensureClipboardGetsEditorSelection :: "bool \<Rightarrow> ClipboardDataToCopy \<Rightarrow> Effect list" where
  "ensureClipboardGetsEditorSelection isFirefox dataToCopy =
     (let storedMetadata =
            \<lparr> version = 1,
              isFromEmptySelection = Some (dc_isFromEmptySelection dataToCopy),
              multicursorText = dc_multicursorText dataToCopy,
              mode = dc_mode dataToCopy \<rparr>
      in [Metadata_set
            (if isFirefox then replaceCRLF (dc_text dataToCopy) else dc_text dataToCopy)
            storedMetadata,
          Clipboard_writeText (dc_text dataToCopy)])"

subsection \<open>Key presses\<close>

text \<open>What the \<open>keydown\<close> listener reads from its surroundings: the host surface,
  the text that \<open>readText\<close> resolves to, the lookup of the metadata registry, the editor
  option \<open>emptySelectionClipboard\<close>, the browser flag, and the data to copy. The
  listener is asynchronous; it is modelled as running to its end without another
  event in between.\<close>

record KeydownEnv =
  editContext :: EditContext
  clipboardText :: string
  metadataOf :: "string \<Rightarrow> ClipboardStoredMetadata option"
  emptySelectionClipboard :: bool
  isFirefox :: bool
  dataToCopy :: ClipboardDataToCopy

definition keydownListener :: "KeydownEnv \<Rightarrow> StandardKeyboardEvent \<Rightarrow> Effect list" where
  "keydownListener env e =
     (if keyCode e = KEY_IN_COMPOSITION then [Event_stopPropagation] else [])
     @ (if keyCode e = Enter then emitAddNewLineEvent (editContext env) else [])
     @ (if metaKey e \<and> keyCode e = KeyV
        then Event_preventDefault # Clipboard_readText #
             (if clipboardText env \<noteq> []
              then (let metadata = metadataOf env (clipboardText env);
                        pasteOnNewLine =
                          (case metadata of
                             None \<Rightarrow> False
                           | Some md \<Rightarrow>
                               emptySelectionClipboard env \<and> isFromEmptySelection md = Some True);
                        multicursorText0 =
                          (case metadata of None \<Rightarrow> None | Some md \<Rightarrow> multicursorText md);
                        mode0 = (case metadata of None \<Rightarrow> None | Some md \<Rightarrow> mode md)
                    in [Metadata_get (clipboardText env),
                        VC_paste (clipboardText env) pasteOnNewLine multicursorText0 mode0])
              else [])
        else [])
     @ (if metaKey e \<and> keyCode e = KeyX
        then ensureClipboardGetsEditorSelection (isFirefox env) (dataToCopy env) @ [VC_cut]
        else [])
     @ [VC_emitKeyDown e]"

subsection \<open>The listeners registered by the constructor\<close>

datatype InputEvent =
    Focus
  | Blur
  | Copy bool ClipboardDataToCopy
  | KeyDown KeydownEnv StandardKeyboardEvent
  | KeyUp StandardKeyboardEvent
  | TextUpdate Position TextUpdateEvent
  | CompositionStart Position
  | CompositionEnd
  | TextFormatUpdate TextModel "TextFormat list"

fun dispatch :: "InputEvent \<Rightarrow> NativeEditContext \<Rightarrow> NativeEditContext \<times> Effect list" where
  "dispatch Focus this = setHasFocus True this"
| "dispatch Blur this = setHasFocus False this"
| "dispatch (Copy ff d) this = (this, ensureClipboardGetsEditorSelection ff d)"
| "dispatch (KeyDown env e) this = (this, keydownListener env e)"
| "dispatch (KeyUp e) this = (this, [VC_emitKeyUp e])"
| "dispatch (TextUpdate position e) this = textupdateListener position e this"
| "dispatch (CompositionStart position) this = compositionstartListener position this"
| "dispatch CompositionEnd this = compositionendListener this"
| "dispatch (TextFormatUpdate textModel formats) this = handleTextFormatUpdate textModel formats this"


fun effectsOf :: "InputEvent list \<Rightarrow> NativeEditContext \<Rightarrow> Effect list" where
  "effectsOf [] this = []"
| "effectsOf (ev # evs) this = snd (dispatch ev this) @ effectsOf evs (fst (dispatch ev this))"

text \<open>The fields as the constructor leaves them.\<close>

definition initialAdapter :: NativeEditContext where
  "initialAdapter =
     \<lparr> currentEditContextState = None, decorations = [], compositionRange = None,
       hasFocus = False \<rparr>"

section \<open>The debug contribution (debug.contribution.ts)\<close>

text \<open>
  The module is a sequence of calls on the registries of the platform, run once when it
  is loaded. The registries are a record; the module is a function that performs the
  calls in the order of the source. Classes, identifiers and labels that the module
  imports (\<open>dbgactions.StartDebugAction\<close>, \<open>debug.VIEWLET_ID\<close> and the like) are kept as
  names; \<open>nls.localize(key, message)\<close> is kept with both arguments.
\<close>

subsection \<open>Descriptors\<close>

datatype ActionCtor =
    ToggleBreakpointAction | SelectionToReplAction | SelectionToWatchExpressionsAction
  | RunToCursorAction | OpenDebugViewletAction
  | StartDebugAction | StepOverDebugAction | StepIntoDebugAction | StepOutDebugAction
  | RestartDebugAction | StopDebugAction | ContinueAction | PauseAction | ConfigureAction
  | ToggleReplAction

datatype Ident = VIEWLET_ID | REPL_ID | ActionID ActionCtor

datatype Label = Localize string string | ActionLABEL ActionCtor

datatype KeyMod = CtrlCmd | Shift

text \<open>A key binding number: modifiers combined with a key code by bitwise or.\<close>

record IKeybindings =
  primaryMods :: "KeyMod set"
  primaryKey :: KeyCode

datatype ContextKey = EditorTextFocus

datatype ContextName = CONTEXT_IN_DEBUG_MODE

datatype KbExpr = KbHas ContextName | KbNot ContextName

datatype Weight = WorkbenchContrib nat

record EditorKbOpts =
  kbContext :: ContextKey
  kbPrimary :: IKeybindings

record EditorActionDescriptor =
  ea_ctor :: ActionCtor
  ea_id :: Ident
  ea_label :: Label
  ea_kbOpts :: "EditorKbOpts option"

record SyncActionDescriptor =
  ctor :: ActionCtor
  actionId :: Ident
  label :: Label
  keybindings :: "IKeybindings option"
  keybindingContext :: "KbExpr option"
  keybindingWeight :: "Weight option"

record ViewletDescriptor =
  vd_moduleId :: string
  vd_ctorName :: string
  vd_id :: Ident
  vd_name :: Label
  vd_cssClass :: string
  vd_order :: nat

record PanelDescriptor =
  pd_moduleId :: string
  pd_ctorName :: string
  pd_id :: Ident
  pd_name :: Label
  pd_cssClass :: string

datatype Contribution = DebugEditorContribution | DebugEditorModelManager | DebugActionsWidget

datatype Service = IDebugService

datatype ServiceImpl = DebugService

subsection \<open>Registries\<close>

record Registries =
  editorContributions :: "Contribution list"
  editorActions :: "EditorActionDescriptor list"
  viewlets :: "ViewletDescriptor list"
  panels :: "PanelDescriptor list"
  defaultPanelId :: "Ident option"
  workbenchActions :: "(SyncActionDescriptor \<times> Label) list"
  workbenchContributions :: "Contribution list"
  singletons :: "(Service \<times> ServiceImpl) list"

definition emptyRegistries :: Registries where
  "emptyRegistries =
     \<lparr> editorContributions = [], editorActions = [], viewlets = [], panels = [],
       defaultPanelId = None, workbenchActions = [], workbenchContributions = [],
       singletons = [] \<rparr>"

text \<open>Modelled from the spec: the registries (\<open>EditorBrowserRegistry\<close>,
  \<open>CommonEditorRegistry\<close>, the viewlet, panel, workbench action and workbench
  contribution registries, \<open>registerSingleton\<close>) are not part of these sources. The
  spec describes them as lookup tables that the registration pass populates with
  descriptor records; each call adds its descriptor, and \<open>setDefaultPanelId\<close> records
  the default panel.\<close>

definition registerEditorContribution :: "Contribution \<Rightarrow> Registries \<Rightarrow> Registries" where
  "registerEditorContribution c r = r\<lparr> editorContributions := editorContributions r @ [c] \<rparr>"

definition registerEditorAction :: "EditorActionDescriptor \<Rightarrow> Registries \<Rightarrow> Registries" where
  "registerEditorAction d r = r\<lparr> editorActions := editorActions r @ [d] \<rparr>"

definition registerViewlet :: "ViewletDescriptor \<Rightarrow> Registries \<Rightarrow> Registries" where
  "registerViewlet d r = r\<lparr> viewlets := viewlets r @ [d] \<rparr>"

definition registerPanel :: "PanelDescriptor \<Rightarrow> Registries \<Rightarrow> Registries" where
  "registerPanel d r = r\<lparr> panels := panels r @ [d] \<rparr>"

definition setDefaultPanelId :: "Ident \<Rightarrow> Registries \<Rightarrow> Registries" where
  "setDefaultPanelId i r = r\<lparr> defaultPanelId := Some i \<rparr>"

definition registerWorkbenchAction :: "SyncActionDescriptor \<Rightarrow> Label \<Rightarrow> Registries \<Rightarrow> Registries" where
  "registerWorkbenchAction d category r = r\<lparr> workbenchActions := workbenchActions r @ [(d, category)] \<rparr>"

definition registerWorkbenchContribution :: "Contribution \<Rightarrow> Registries \<Rightarrow> Registries" where
  "registerWorkbenchContribution c r = r\<lparr> workbenchContributions := workbenchContributions r @ [c] \<rparr>"

definition registerSingleton :: "Service \<Rightarrow> ServiceImpl \<Rightarrow> Registries \<Rightarrow> Registries" where
  "registerSingleton s i r = r\<lparr> singletons := singletons r @ [(s, i)] \<rparr>"

text \<open>Modelled from the spec: \<open>KbExpr\<close> (keybindingService) is not part of these
  sources. The spec describes the debug-mode context flag as a shared boolean predicate
  that enables an action when asserted (\<open>has\<close>) or when negated (\<open>not\<close>).\<close>

fun kbHolds :: "(ContextName \<Rightarrow> bool) \<Rightarrow> KbExpr \<Rightarrow> bool" where
  "kbHolds flags (KbHas k) = flags k"
| "kbHolds flags (KbNot k) = (\<not> flags k)"

subsection \<open>The module\<close>

definition OpenDebugViewletAction_ID :: Ident where
  "OpenDebugViewletAction_ID = VIEWLET_ID"

definition OpenDebugViewletAction_LABEL :: Label where
  "OpenDebugViewletAction_LABEL = Localize ''toggleDebugViewlet'' ''Show Debug''"

definition openViewletKb :: IKeybindings where
  "openViewletKb = \<lparr> primaryMods = {CtrlCmd, Shift}, primaryKey = KEY_D \<rparr>"

definition debugCategory :: Label where
  "debugCategory = Localize ''debugCategory'' ''Debug''"

definition debugContribution :: "Registries \<Rightarrow> Registries" where
  "debugContribution =
     fold (\<lambda>call r. call r)
        [registerEditorContribution DebugEditorContribution,
         registerEditorAction
           \<lparr> ea_ctor = ToggleBreakpointAction, ea_id = ActionID ToggleBreakpointAction,
              ea_label = Localize ''toggleBreakpointAction'' ''Debug: Toggle Breakpoint'',
              ea_kbOpts = Some \<lparr> kbContext = EditorTextFocus,
                               kbPrimary = \<lparr> primaryMods = {}, primaryKey = F9 \<rparr> \<rparr> \<rparr>,
         registerEditorAction
           \<lparr> ea_ctor = SelectionToReplAction, ea_id = ActionID SelectionToReplAction,
              ea_label = Localize ''debugEvaluate'' ''Debug: Evaluate'',
              ea_kbOpts = None \<rparr>,
         registerEditorAction
           \<lparr> ea_ctor = SelectionToWatchExpressionsAction, ea_id = ActionID SelectionToWatchExpressionsAction,
              ea_label = Localize ''addToWatch'' ''Debug: Add to Watch'',
              ea_kbOpts = None \<rparr>,
         registerEditorAction
           \<lparr> ea_ctor = RunToCursorAction, ea_id = ActionID RunToCursorAction,
              ea_label = Localize ''runToCursor'' ''Debug: Run to Cursor'',
              ea_kbOpts = None \<rparr>,
         registerViewlet
           \<lparr> vd_moduleId = ''vs/workbench/parts/debug/browser/debugViewlet'',
              vd_ctorName = ''DebugViewlet'', vd_id = VIEWLET_ID,
              vd_name = Localize ''debug'' ''Debug'', vd_cssClass = ''debug'', vd_order = 40 \<rparr>,
         registerPanel
           \<lparr> pd_moduleId = ''vs/workbench/parts/debug/browser/repl'',
              pd_ctorName = ''Repl'', pd_id = REPL_ID,
              pd_name = Localize ''debugConsole'' ''DEBUG CONSOLE'', pd_cssClass = ''repl'' \<rparr>,
         setDefaultPanelId REPL_ID,
         registerWorkbenchAction
           \<lparr> ctor = OpenDebugViewletAction, actionId = OpenDebugViewletAction_ID,
              label = OpenDebugViewletAction_LABEL,
              keybindings = Some openViewletKb,
              keybindingContext = None, keybindingWeight = None \<rparr>
           (Localize ''view'' ''View''),
         registerWorkbenchContribution DebugEditorModelManager,
         registerWorkbenchContribution DebugActionsWidget,
         registerWorkbenchAction
           \<lparr> ctor = StartDebugAction, actionId = ActionID StartDebugAction, label = ActionLABEL StartDebugAction,
              keybindings = Some \<lparr> primaryMods = {}, primaryKey = F5 \<rparr>,
              keybindingContext = Some (KbNot CONTEXT_IN_DEBUG_MODE), keybindingWeight = None \<rparr>
           debugCategory,
         registerWorkbenchAction
           \<lparr> ctor = StepOverDebugAction, actionId = ActionID StepOverDebugAction, label = ActionLABEL StepOverDebugAction,
              keybindings = Some \<lparr> primaryMods = {}, primaryKey = F10 \<rparr>,
              keybindingContext = Some (KbHas CONTEXT_IN_DEBUG_MODE), keybindingWeight = None \<rparr>
           debugCategory,
         registerWorkbenchAction
           \<lparr> ctor = StepIntoDebugAction, actionId = ActionID StepIntoDebugAction, label = ActionLABEL StepIntoDebugAction,
              keybindings = Some \<lparr> primaryMods = {}, primaryKey = F11 \<rparr>,
              keybindingContext = Some (KbHas CONTEXT_IN_DEBUG_MODE), keybindingWeight = Some (WorkbenchContrib 1) \<rparr>
           debugCategory,
         registerWorkbenchAction
           \<lparr> ctor = StepOutDebugAction, actionId = ActionID StepOutDebugAction, label = ActionLABEL StepOutDebugAction,
              keybindings = Some \<lparr> primaryMods = {Shift}, primaryKey = F11 \<rparr>,
              keybindingContext = Some (KbHas CONTEXT_IN_DEBUG_MODE), keybindingWeight = None \<rparr>
           debugCategory,
         registerWorkbenchAction
           \<lparr> ctor = RestartDebugAction, actionId = ActionID RestartDebugAction, label = ActionLABEL RestartDebugAction,
              keybindings = None,
              keybindingContext = None, keybindingWeight = None \<rparr>
           debugCategory,
         registerWorkbenchAction
           \<lparr> ctor = StopDebugAction, actionId = ActionID StopDebugAction, label = ActionLABEL StopDebugAction,
              keybindings = Some \<lparr> primaryMods = {Shift}, primaryKey = F5 \<rparr>,
              keybindingContext = Some (KbHas CONTEXT_IN_DEBUG_MODE), keybindingWeight = None \<rparr>
           debugCategory,
         registerWorkbenchAction
           \<lparr> ctor = ContinueAction, actionId = ActionID ContinueAction, label = ActionLABEL ContinueAction,
              keybindings = Some \<lparr> primaryMods = {}, primaryKey = F5 \<rparr>,
              keybindingContext = Some (KbHas CONTEXT_IN_DEBUG_MODE), keybindingWeight = None \<rparr>
           debugCategory,
         registerWorkbenchAction
           \<lparr> ctor = PauseAction, actionId = ActionID PauseAction, label = ActionLABEL PauseAction,
              keybindings = None,
              keybindingContext = None, keybindingWeight = None \<rparr>
           debugCategory,
         registerWorkbenchAction
           \<lparr> ctor = ConfigureAction, actionId = ActionID ConfigureAction, label = ActionLABEL ConfigureAction,
              keybindings = None,
              keybindingContext = None, keybindingWeight = None \<rparr>
           debugCategory,
         registerWorkbenchAction
           \<lparr> ctor = ToggleReplAction, actionId = ActionID ToggleReplAction, label = ActionLABEL ToggleReplAction,
              keybindings = Some \<lparr> primaryMods = {CtrlCmd, Shift}, primaryKey = KEY_I \<rparr>,
              keybindingContext = None, keybindingWeight = None \<rparr>
           debugCategory,
         registerSingleton IDebugService DebugService]"

text \<open>The registries after the module has been loaded into empty ones.\<close>

definition loaded :: Registries where
  "loaded = debugContribution emptyRegistries"

section \<open>Notions used in the statements\<close>

text \<open>The part of a string between two offsets: the code units at the indices \<open>i\<close>
  with \<open>a \<le> i < b\<close>.\<close>

definition slice :: "string \<Rightarrow> int \<Rightarrow> int \<Rightarrow> string" where
  "slice s a b = drop (nat a) (take (nat b) s)"

text \<open>A string with the part between two offsets replaced by another string.\<close>

definition splice :: "string \<Rightarrow> nat \<Rightarrow> nat \<Rightarrow> string \<Rightarrow> string" where
  "splice s a b ins = take a s @ ins @ drop b s"


text \<open>Selections of an effect list: the focus notifications sent to the view model, the
  pastes forwarded to the view controller, the lookups in the metadata registry.\<close>

fun focusNotifications :: "Effect list \<Rightarrow> bool list" where
  "focusNotifications [] = []"
| "focusNotifications (VM_setHasFocus b # fx) = b # focusNotifications fx"
| "focusNotifications (x # fx) = focusNotifications fx"

fun isPaste :: "Effect \<Rightarrow> bool" where
  "isPaste (VC_paste t n m l) = True"
| "isPaste x = False"

fun isMetadataGet :: "Effect \<Rightarrow> bool" where
  "isMetadataGet (Metadata_get t) = True"
| "isMetadataGet x = False"

section \<open>Properties\<close>

subsection \<open>Helper facts\<close>

lemma substring_slice: "a \<le> b \<Longrightarrow> substring s a b = slice s a b"
proof -
  assume ab: "a \<le> b"
  define n where "n = length s"
  define ca where "ca = min (max a 0) (int n)"
  define cb where "cb = min (max b 0) (int n)"
  have le: "ca \<le> cb" using ab by (simp add: ca_def cb_def min_def max_def)
  have sub: "substring s a b = take (nat (cb - ca)) (drop (nat ca) s)"
    using le by (simp add: substring_def Let_def ca_def cb_def n_def min_absorb1 max_absorb2)
  have sl: "slice s a b = take (nat b - nat a) (drop (nat a) s)"
    by (simp add: slice_def drop_take)
  show ?thesis
  proof (cases "int n \<le> a")
    case True
    then have "nat ca = n" "n \<le> nat a" by (simp_all add: ca_def min_def max_def)
    then show ?thesis by (simp add: sub sl n_def)
  next
    case False
    then have ca: "nat ca = nat a" by (simp add: ca_def min_def max_def)
    show ?thesis
    proof (cases "int n \<le> b")
      case True
      then have "cb = int n" by (simp add: cb_def min_def max_def)
      then have "length (drop (nat a) s) \<le> nat (cb - ca)" "length (drop (nat a) s) \<le> nat b - nat a"
        using True False ca by (auto simp: n_def ca_def min_def max_def split: if_splits)
      then show ?thesis by (simp add: sub sl ca)
    next
      case False
      then have "nat (cb - ca) = nat b - nat a"
        using ab \<open>\<not> int n \<le> a\<close> by (auto simp: cb_def ca_def min_def max_def nat_diff_distrib split: if_splits)
      then show ?thesis by (simp add: sub sl ca)
    qed
  qed
qed

lemma slice_same: "slice s a a = []"
  by (simp add: slice_def)

lemma fst_emitTypeEvent: "fst (emitTypeEvent e this) = this"
  by (simp add: emitTypeEvent_def Let_def split: option.split)




lemma substring_prefix: "substring s 0 (int n) = take n s"
  using substring_slice [of 0 "int n" s] by (simp add: slice_def)

lemma substringFrom_drop: "substringFrom s (int n) = drop n s"
proof (cases "n \<le> length s")
  case True
  then show ?thesis
    using substring_slice [of "int n" "int (length s)" s] by (simp add: substringFrom_def slice_def)
next
  case False
  then show ?thesis by (simp add: substringFrom_def substring_def Let_def)
qed

text \<open>The replacement acts on each carriage return, line feed of the text and on
  nothing else.\<close>

lemma replaceCRLF_append:
  "replaceCRLF (xs @ CHR 0x0D # CHR 0x0A # ys) = replaceCRLF xs @ CHR 0x0A # replaceCRLF ys"
  by (induction xs rule: replaceCRLF.induct) auto

lemma replaceCRLF_no_CR: "CHR 0x0D \<notin> set s \<Longrightarrow> replaceCRLF s = s"
  by (induction s rule: replaceCRLF.induct) auto

text \<open>What the \<open>textupdate\<close> listener does to the adapter: it moves the end of the
  composition range, when there is one, and nothing else.\<close>

lemma textupdateListener_state:
  "fst (textupdateListener position e this) =
     (case compositionRange this of
        None \<Rightarrow> this
      | Some r \<Rightarrow>
          this\<lparr> compositionRange :=
                   Some (setEndPosition r (lineNumber position) (column position)) \<rparr>)"
  by (simp add: textupdateListener_def fst_emitTypeEvent split: option.split)

subsection \<open>Typing\<close>

text \<open>C5. \<open>_onType\<close> issues exactly one call on the view controller: a
  \<open>compositionType\<close> carrying the four fields when any of \<open>replacePrevCharCnt\<close>,
  \<open>replaceNextCharCnt\<close>, \<open>positionDelta\<close> is nonzero, and otherwise a plain
  \<open>type\<close> of the text.\<close>

theorem onType_dispatch:
  "onType ti =
     (if replacePrevCharCnt ti \<noteq> 0 \<or> replaceNextCharCnt ti \<noteq> 0 \<or> positionDelta ti \<noteq> 0
      then [VC_compositionType (text' ti) (replacePrevCharCnt ti) (replaceNextCharCnt ti) (positionDelta ti)]
      else [VC_type (text' ti)])"
  by (simp add: onType_def truthy_def)

theorem onType_dispatch_witness:
  "onType \<lparr> text' = ''a'', replacePrevCharCnt = 1, replaceNextCharCnt = 0, positionDelta = 0 \<rparr>
     = [VC_compositionType ''a'' 1 0 0]
   \<and> onType \<lparr> text' = ''a'', replacePrevCharCnt = 0, replaceNextCharCnt = 0, positionDelta = 0 \<rparr>
     = [VC_type ''a'']"
  using onType_dispatch [of "\<lparr> text' = ''a'', replacePrevCharCnt = 1, replaceNextCharCnt = 0, positionDelta = 0 \<rparr>"]
        onType_dispatch [of "\<lparr> text' = ''a'', replacePrevCharCnt = 0, replaceNextCharCnt = 0, positionDelta = 0 \<rparr>"]
  by simp

text \<open>C1, as amended. With a snapshot \<open>st\<close> captured, \<open>_emitTypeEvent\<close> leaves the
  adapter as it is and hands to \<open>_onType\<close> the type input with
  \<open>replacePrevCharCnt = max(0, selectionStartOffset - updateRangeStart)\<close>,
  \<open>replaceNextCharCnt = max(0, updateRangeEnd - selectionEndOffset)\<close>,
  \<open>positionDelta = 0\<close>, and the text made of the snapshot content between
  \<open>selectionStartOffset\<close> and \<open>updateRangeStart\<close> (when the first is smaller), the
  text of the event, and the snapshot content between \<open>updateRangeEnd\<close> and
  \<open>selectionEndOffset\<close> (when the first is smaller). For an event inside the previous
  selection both counts are 0, so the text is typed plainly, and the text is still the
  prefix slice, the event's text and the suffix slice; it is the event's text alone when
  the update range is the whole selection.\<close>

theorem emitTypeEvent_typeInput:
  assumes "currentEditContextState this = Some st"
  shows "emitTypeEvent e this =
     (this, onType \<lparr> text' =
           (if selectionStartOffset st < updateRangeStart e
            then slice (content st) (selectionStartOffset st) (updateRangeStart e) else [])
           @ ev_text e
           @ (if updateRangeEnd e < selectionEndOffset st
              then slice (content st) (updateRangeEnd e) (selectionEndOffset st) else []),
        replacePrevCharCnt = max 0 (selectionStartOffset st - updateRangeStart e),
        replaceNextCharCnt = max 0 (updateRangeEnd e - selectionEndOffset st),
        positionDelta = 0 \<rparr>)
   \<and> (selectionStartOffset st \<le> updateRangeStart e \<and> updateRangeEnd e \<le> selectionEndOffset st \<longrightarrow>
        emitTypeEvent e this =
          (this, [VC_type (slice (content st) (selectionStartOffset st) (updateRangeStart e)
                           @ ev_text e
                           @ slice (content st) (updateRangeEnd e) (selectionEndOffset st))]))
   \<and> (updateRangeStart e = selectionStartOffset st \<and> updateRangeEnd e = selectionEndOffset st \<longrightarrow>
        emitTypeEvent e this = (this, [VC_type (ev_text e)]))"
  using assms
  by (simp add: emitTypeEvent_def Let_def max_def substring_slice slice_same onType_def truthy_def)

text \<open>C1, witness: after a render pass with the snapshot \<open>abcdef\<close> and the selection
  from 1 to 5. An update of
  exactly the selection types the event's text; an update of the whole content, one
  character beyond the selection on each side, replaces one character before and one
  after.\<close>

theorem emitTypeEvent_typeInput_witness:
  "currentEditContextState
      (fst (updateEditContext
               \<lparr> content = ''abcdef'', selectionStartOffset = 1, selectionEndOffset = 5,
                 rangeOfContent = \<lparr> startLineNumber = 1, startColumn = 1,
                                    endLineNumber = 1, endColumn = 7 \<rparr> \<rparr>
             initialAdapter))
     = Some \<lparr> content = ''abcdef'', selectionStartOffset = 1, selectionEndOffset = 5,
                 rangeOfContent = \<lparr> startLineNumber = 1, startColumn = 1,
                                    endLineNumber = 1, endColumn = 7 \<rparr> \<rparr>
   \<and> snd (emitTypeEvent \<lparr> ev_text = ''X'', updateRangeStart = 1, updateRangeEnd = 5 \<rparr>
        (fst (updateEditContext
               \<lparr> content = ''abcdef'', selectionStartOffset = 1, selectionEndOffset = 5,
                 rangeOfContent = \<lparr> startLineNumber = 1, startColumn = 1,
                                    endLineNumber = 1, endColumn = 7 \<rparr> \<rparr>
             initialAdapter)))
       = [VC_type ''X'']
   \<and> snd (emitTypeEvent \<lparr> ev_text = ''X'', updateRangeStart = 0, updateRangeEnd = 6 \<rparr>
        (fst (updateEditContext
               \<lparr> content = ''abcdef'', selectionStartOffset = 1, selectionEndOffset = 5,
                 rangeOfContent = \<lparr> startLineNumber = 1, startColumn = 1,
                                    endLineNumber = 1, endColumn = 7 \<rparr> \<rparr>
             initialAdapter)))
       = [VC_compositionType ''X'' 1 1 0]"
  using emitTypeEvent_typeInput
          [of "(fst (updateEditContext
               \<lparr> content = ''abcdef'', selectionStartOffset = 1, selectionEndOffset = 5,
                 rangeOfContent = \<lparr> startLineNumber = 1, startColumn = 1,
                                    endLineNumber = 1, endColumn = 7 \<rparr> \<rparr>
             initialAdapter))"
              "\<lparr> content = ''abcdef'', selectionStartOffset = 1, selectionEndOffset = 5,
                 rangeOfContent = \<lparr> startLineNumber = 1, startColumn = 1,
                                    endLineNumber = 1, endColumn = 7 \<rparr> \<rparr>"
              "\<lparr> ev_text = ''X'', updateRangeStart = 1, updateRangeEnd = 5 \<rparr>"]
        emitTypeEvent_typeInput
          [of "(fst (updateEditContext
               \<lparr> content = ''abcdef'', selectionStartOffset = 1, selectionEndOffset = 5,
                 rangeOfContent = \<lparr> startLineNumber = 1, startColumn = 1,
                                    endLineNumber = 1, endColumn = 7 \<rparr> \<rparr>
             initialAdapter))"
              "\<lparr> content = ''abcdef'', selectionStartOffset = 1, selectionEndOffset = 5,
                 rangeOfContent = \<lparr> startLineNumber = 1, startColumn = 1,
                                    endLineNumber = 1, endColumn = 7 \<rparr> \<rparr>"
              "\<lparr> ev_text = ''X'', updateRangeStart = 0, updateRangeEnd = 6 \<rparr>"]
  by (simp add: updateEditContext_def initialAdapter_def onType_def truthy_def)

text \<open>C1, counterexample to the claim as stated: after a render pass with the snapshot
  \<open>abcdef\<close> and the selection from 1 to 5, an update of the range from 2 to 4 with the
  text \<open>X\<close>. The event is inside the selection, and the text typed is \<open>bXe\<close>, not
  \<open>X\<close>.\<close>

theorem emitTypeEvent_inside_selection_counterexample:
  "(1::int) \<le> 2 \<and> (4::int) \<le> 5 \<and>
   snd (emitTypeEvent \<lparr> ev_text = ''X'', updateRangeStart = 2, updateRangeEnd = 4 \<rparr>
        (fst (updateEditContext
               \<lparr> content = ''abcdef'', selectionStartOffset = 1, selectionEndOffset = 5,
                 rangeOfContent = \<lparr> startLineNumber = 1, startColumn = 1,
                                    endLineNumber = 1, endColumn = 7 \<rparr> \<rparr>
             initialAdapter)))
     = [VC_type ''bXe'']"
  by (simp add: emitTypeEvent_def updateEditContext_def initialAdapter_def substring_def
        onType_def truthy_def Let_def)

subsection \<open>Clipboard\<close>

text \<open>C2, as amended. On every copy and every cut, the text under which the metadata is
  stored in the registry has every carriage return, line feed replaced by a line feed on
  Firefox and is the copied text elsewhere; the text written to the clipboard service is
  the copied text, unmodified, on every platform.\<close>

theorem clipboard_texts:
  "ensureClipboardGetsEditorSelection ff d =
     [Metadata_set (if ff then replaceCRLF (dc_text d) else dc_text d)
        \<lparr> version = 1, isFromEmptySelection = Some (dc_isFromEmptySelection d),
          multicursorText = dc_multicursorText d, mode = dc_mode d \<rparr>,
      Clipboard_writeText (dc_text d)]
   \<and> snd (dispatch (Copy ff d) this) = ensureClipboardGetsEditorSelection ff d
   \<and> keydownListener (env\<lparr> isFirefox := ff, dataToCopy := d \<rparr>) \<lparr> keyCode = KeyX, metaKey = True \<rparr>
       = ensureClipboardGetsEditorSelection ff d
         @ [VC_cut, VC_emitKeyDown \<lparr> keyCode = KeyX, metaKey = True \<rparr>]"
  by (simp add: ensureClipboardGetsEditorSelection_def keydownListener_def Let_def)

text \<open>C2, witness: on Firefox, a copy of the four code units \<open>a\<close>, carriage return,
  line feed, \<open>b\<close>.\<close>

theorem clipboard_texts_witness:
  "snd (dispatch (Copy True \<lparr> dc_isFromEmptySelection = False, dc_multicursorText = None,
                              dc_text = [CHR ''a'', CHR 0x0D, CHR 0x0A, CHR ''b''],
                              dc_mode = None \<rparr>) initialAdapter)
     = [Metadata_set [CHR ''a'', CHR 0x0A, CHR ''b'']
          \<lparr> version = 1, isFromEmptySelection = Some False, multicursorText = None,
            mode = None \<rparr>,
        Clipboard_writeText [CHR ''a'', CHR 0x0D, CHR 0x0A, CHR ''b'']]"
  using clipboard_texts
          [of True "\<lparr> dc_isFromEmptySelection = False, dc_multicursorText = None,
                      dc_text = [CHR ''a'', CHR 0x0D, CHR 0x0A, CHR ''b''],
                      dc_mode = None \<rparr>" initialAdapter]
  by simp

text \<open>C2, counterexample to the claim as stated: on Firefox, for the copied text
  \<open>a\<close>, carriage return, line feed, \<open>b\<close>, the text written to the clipboard
  service still holds the carriage return; it is not the text with the replacement
  made.\<close>

theorem clipboard_written_text_counterexample:
  "ensureClipboardGetsEditorSelection True
      \<lparr> dc_isFromEmptySelection = False, dc_multicursorText = None,
        dc_text = [CHR ''a'', CHR 0x0D, CHR 0x0A, CHR ''b''], dc_mode = None \<rparr> ! 1
     = Clipboard_writeText [CHR ''a'', CHR 0x0D, CHR 0x0A, CHR ''b'']
   \<and> replaceCRLF [CHR ''a'', CHR 0x0D, CHR 0x0A, CHR ''b''] = [CHR ''a'', CHR 0x0A, CHR ''b'']"
  by (simp add: ensureClipboardGetsEditorSelection_def Let_def)

subsection \<open>Composition\<close>




subsection \<open>Key presses\<close>

text \<open>C6. On an Enter key press, whatever the selection of the host surface is, the
  adapter replaces the whole text of the surface (from 0 to the end-of-text sentinel
  \<open>Number.MAX_SAFE_INTEGER\<close>) by the text of the surface with one line feed in place
  of the part between \<open>selectionStart\<close> and \<open>selectionEnd\<close>, and hands to \<open>_onType\<close>
  exactly one type input, with the text line feed and the three counts 0, which is typed
  plainly; the key press is then forwarded to the view controller.\<close>

theorem enter_keydown:
  "emitAddNewLineEvent ec =
     EC_updateText 0 MAX_SAFE_INTEGER
       (splice (ec_text ec) (selectionStart ec) (selectionEnd ec) [CHR 0x0A])
     # onType \<lparr> text' = [CHR 0x0A], replacePrevCharCnt = 0, replaceNextCharCnt = 0,
                 positionDelta = 0 \<rparr>
   \<and> (keyCode e = Enter \<longrightarrow>
        keydownListener env e =
          [EC_updateText 0 MAX_SAFE_INTEGER
             (splice (ec_text (editContext env)) (selectionStart (editContext env))
                (selectionEnd (editContext env)) [CHR 0x0A]),
           VC_type [CHR 0x0A],
           VC_emitKeyDown e])"
  by (simp add: emitAddNewLineEvent_def keydownListener_def Let_def substring_prefix
        substringFrom_drop splice_def onType_def truthy_def)

text \<open>C6, witness: Enter on the surface text \<open>hello\<close> with the selection from 1 to 3.\<close>

theorem enter_keydown_witness:
  "keyCode \<lparr> keyCode = Enter, metaKey = False \<rparr> = Enter
   \<and> keydownListener
        \<lparr> editContext = \<lparr> ec_text = ''hello'', selectionStart = 1, selectionEnd = 3 \<rparr>,
          clipboardText = [], metadataOf = (\<lambda>t. None), emptySelectionClipboard = True,
          isFirefox = False,
          dataToCopy = \<lparr> dc_isFromEmptySelection = False, dc_multicursorText = None,
                         dc_text = [], dc_mode = None \<rparr> \<rparr>
        \<lparr> keyCode = Enter, metaKey = False \<rparr>
      = [EC_updateText 0 9007199254740991 [CHR ''h'', CHR 0x0A, CHR ''l'', CHR ''o''],
         VC_type [CHR 0x0A],
         VC_emitKeyDown \<lparr> keyCode = Enter, metaKey = False \<rparr>]"
  using enter_keydown
          [of "\<lparr> ec_text = ''hello'', selectionStart = 1, selectionEnd = 3 \<rparr>"
              "\<lparr> keyCode = Enter, metaKey = False \<rparr>"
              "\<lparr> editContext = \<lparr> ec_text = ''hello'', selectionStart = 1, selectionEnd = 3 \<rparr>,
                 clipboardText = [], metadataOf = (\<lambda>t. None), emptySelectionClipboard = True,
                 isFirefox = False,
                 dataToCopy = \<lparr> dc_isFromEmptySelection = False, dc_multicursorText = None,
                                dc_text = [], dc_mode = None \<rparr> \<rparr>"]
  by (simp add: splice_def MAX_SAFE_INTEGER_def)

text \<open>C10. On a paste key press (the meta modifier with the key V) the default action is
  prevented and the clipboard is read. When the text read is empty, nothing is looked up
  in the metadata registry and no paste is forwarded; when it is not empty, the registry
  is looked up once and exactly one paste is forwarded to the view controller. So a paste
  is forwarded if and only if the clipboard text is not empty. The key press is forwarded
  in both cases.\<close>

theorem paste_keydown:
  assumes "metaKey e" "keyCode e = KeyV"
  shows "keydownListener env e =
      Event_preventDefault # Clipboard_readText #
      (if clipboardText env = [] then []
       else [Metadata_get (clipboardText env),
             VC_paste (clipboardText env)
               (case metadataOf env (clipboardText env) of
                  None \<Rightarrow> False
                | Some md \<Rightarrow> emptySelectionClipboard env \<and> isFromEmptySelection md = Some True)
               (case metadataOf env (clipboardText env) of
                  None \<Rightarrow> None | Some md \<Rightarrow> multicursorText md)
               (case metadataOf env (clipboardText env) of
                  None \<Rightarrow> None | Some md \<Rightarrow> mode md)])
      @ [VC_emitKeyDown e]
   \<and> list_ex isPaste (keydownListener env e) = (clipboardText env \<noteq> [])
   \<and> list_ex isMetadataGet (keydownListener env e) = (clipboardText env \<noteq> [])
   \<and> length (filter isPaste (keydownListener env e)) = (if clipboardText env = [] then 0 else 1)"
  using assms
  by (simp add: keydownListener_def Let_def)

text \<open>C10, witness: a paste key press with an empty clipboard, and one with the
  clipboard text \<open>x\<close> for which the registry holds no metadata.\<close>

theorem paste_keydown_witness:
  "metaKey \<lparr> keyCode = KeyV, metaKey = True \<rparr>
   \<and> keyCode \<lparr> keyCode = KeyV, metaKey = True \<rparr> = KeyV
   \<and> keydownListener
        \<lparr> editContext = \<lparr> ec_text = [], selectionStart = 0, selectionEnd = 0 \<rparr>,
          clipboardText = [], metadataOf = (\<lambda>t. None), emptySelectionClipboard = True,
          isFirefox = False,
          dataToCopy = \<lparr> dc_isFromEmptySelection = False, dc_multicursorText = None,
                         dc_text = [], dc_mode = None \<rparr> \<rparr>
        \<lparr> keyCode = KeyV, metaKey = True \<rparr>
      = [Event_preventDefault, Clipboard_readText,
         VC_emitKeyDown \<lparr> keyCode = KeyV, metaKey = True \<rparr>]
   \<and> keydownListener
        \<lparr> editContext = \<lparr> ec_text = [], selectionStart = 0, selectionEnd = 0 \<rparr>,
          clipboardText = ''x'', metadataOf = (\<lambda>t. None), emptySelectionClipboard = True,
          isFirefox = False,
          dataToCopy = \<lparr> dc_isFromEmptySelection = False, dc_multicursorText = None,
                         dc_text = [], dc_mode = None \<rparr> \<rparr>
        \<lparr> keyCode = KeyV, metaKey = True \<rparr>
      = [Event_preventDefault, Clipboard_readText, Metadata_get ''x'',
         VC_paste ''x'' False None None,
         VC_emitKeyDown \<lparr> keyCode = KeyV, metaKey = True \<rparr>]"
  using paste_keydown
          [of "\<lparr> keyCode = KeyV, metaKey = True \<rparr>"
              "\<lparr> editContext = \<lparr> ec_text = [], selectionStart = 0, selectionEnd = 0 \<rparr>,
                 clipboardText = [], metadataOf = (\<lambda>t. None), emptySelectionClipboard = True,
                 isFirefox = False,
                 dataToCopy = \<lparr> dc_isFromEmptySelection = False, dc_multicursorText = None,
                                dc_text = [], dc_mode = None \<rparr> \<rparr>"]
        paste_keydown
          [of "\<lparr> keyCode = KeyV, metaKey = True \<rparr>"
              "\<lparr> editContext = \<lparr> ec_text = [], selectionStart = 0, selectionEnd = 0 \<rparr>,
                 clipboardText = ''x'', metadataOf = (\<lambda>t. None), emptySelectionClipboard = True,
                 isFirefox = False,
                 dataToCopy = \<lparr> dc_isFromEmptySelection = False, dc_multicursorText = None,
                                dc_text = [], dc_mode = None \<rparr> \<rparr>"]
  by simp

subsection \<open>Events before the first render pass\<close>

text \<open>C8. While no snapshot has been captured, \<open>_emitTypeEvent\<close> and
  \<open>_handleTextFormatUpdate\<close> return at once: they call no collaborator (no edit intent,
  no decoration change) and return the adapter as it was; there is no error branch. So
  the \<open>textformatupdate\<close> listener changes nothing, and the \<open>textupdate\<close> listener
  dispatches nothing and leaves the snapshot absent and the decorations and the focus
  flag as they were.\<close>

theorem no_snapshot_no_dispatch:
  assumes "currentEditContextState this = None"
  shows "emitTypeEvent e this = (this, [])
   \<and> handleTextFormatUpdate textModel formats this = (this, [])
   \<and> dispatch (TextFormatUpdate textModel formats) this = (this, [])
   \<and> snd (dispatch (TextUpdate position e) this) = []
   \<and> currentEditContextState (fst (dispatch (TextUpdate position e) this)) = None
   \<and> decorations (fst (dispatch (TextUpdate position e) this)) = decorations this
   \<and> hasFocus (fst (dispatch (TextUpdate position e) this)) = hasFocus this"
  using assms
  by (simp add: emitTypeEvent_def handleTextFormatUpdate_def textupdateListener_def
        split: option.split)

text \<open>C8, witness: a text update that arrives at the adapter as the constructor leaves
  it.\<close>

theorem no_snapshot_no_dispatch_witness:
  "currentEditContextState initialAdapter = None
   \<and> dispatch (TextUpdate \<lparr> lineNumber = 1, column = 1 \<rparr>
        \<lparr> ev_text = ''a'', updateRangeStart = 0, updateRangeEnd = 0 \<rparr>) initialAdapter
      = (initialAdapter, [])"
  using no_snapshot_no_dispatch
          [of initialAdapter "\<lparr> ev_text = ''a'', updateRangeStart = 0, updateRangeEnd = 0 \<rparr>"]
  by (simp add: initialAdapter_def textupdateListener_def)

subsection \<open>Focus\<close>

text \<open>C9. \<open>_setHasFocus(v)\<close> does nothing when the stored flag is already \<open>v\<close>;
  otherwise it stores \<open>v\<close> and notifies the view model once, after calling the native
  \<open>focus\<close> of the DOM node when focus is gained, and without that call when focus is
  lost. After a call the flag is \<open>v\<close>, so a second call with the same value does
  nothing, and the two calls together send at most one notification.\<close>

theorem setHasFocus_idempotent:
  "snd (setHasFocus v this) =
     (if hasFocus this = v then []
      else if v then [DOM_focus, VM_setHasFocus True] else [VM_setHasFocus False])
   \<and> hasFocus (fst (setHasFocus v this)) = v
   \<and> setHasFocus v (fst (setHasFocus v this)) = (fst (setHasFocus v this), [])
   \<and> length (focusNotifications
               (snd (setHasFocus v this) @ snd (setHasFocus v (fst (setHasFocus v this))))) \<le> 1"
  by (simp add: setHasFocus_def Let_def)

text \<open>C9, witness: two focus events on the adapter as the constructor leaves it, and two
  blur events on a focused adapter.\<close>

theorem setHasFocus_idempotent_witness:
  "effectsOf [Focus, Focus] initialAdapter = [DOM_focus, VM_setHasFocus True]
   \<and> effectsOf [Blur, Blur] (initialAdapter\<lparr> hasFocus := True \<rparr>) = [VM_setHasFocus False]"
  using setHasFocus_idempotent [of True initialAdapter]
        setHasFocus_idempotent [of False "initialAdapter\<lparr> hasFocus := True \<rparr>"]
  by (simp add: initialAdapter_def split: prod.splits)

subsection \<open>Debug registrations\<close>

text \<open>C4, as amended. The ten registrations under the \<open>Debug\<close> category are, in order,
  start, step over, step into, step out, restart, stop, continue, pause, configure (open
  the launch configuration) and the toggle of the console panel, and no other workbench
  action of the module but \<open>Show Debug\<close> is outside that category. The key binding
  context of start is the debug-mode flag negated; that of step over, step into, step
  out, stop and continue is the flag asserted; restart, pause, configure and the console
  toggle are registered with no context.\<close>

theorem debug_actions_category_and_context:
  "[(ctor d, map_option (kbHolds flags) (keybindingContext d)).
      (d, c) \<leftarrow> workbenchActions loaded, c = Localize ''debugCategory'' ''Debug'']
     = [(StartDebugAction, Some (\<not> flags CONTEXT_IN_DEBUG_MODE)),
        (StepOverDebugAction, Some (flags CONTEXT_IN_DEBUG_MODE)),
        (StepIntoDebugAction, Some (flags CONTEXT_IN_DEBUG_MODE)),
        (StepOutDebugAction, Some (flags CONTEXT_IN_DEBUG_MODE)),
        (RestartDebugAction, None),
        (StopDebugAction, Some (flags CONTEXT_IN_DEBUG_MODE)),
        (ContinueAction, Some (flags CONTEXT_IN_DEBUG_MODE)),
        (PauseAction, None),
        (ConfigureAction, None),
        (ToggleReplAction, None)]
   \<and> [ctor d. (d, c) \<leftarrow> workbenchActions loaded, c \<noteq> Localize ''debugCategory'' ''Debug'']
       = [OpenDebugViewletAction]"
  by (simp add: loaded_def debugContribution_def emptyRegistries_def registerEditorContribution_def
        registerEditorAction_def registerViewlet_def registerPanel_def setDefaultPanelId_def
        registerWorkbenchAction_def registerWorkbenchContribution_def registerSingleton_def
        openViewletKb_def debugCategory_def OpenDebugViewletAction_LABEL_def)

text \<open>C4, witness: while a debug session is active, start is disabled and the five
  stepping actions are enabled.\<close>

theorem debug_actions_category_and_context_witness:
  "[(ctor d, map_option (kbHolds (\<lambda>k. True)) (keybindingContext d)).
      (d, c) \<leftarrow> workbenchActions loaded, c = Localize ''debugCategory'' ''Debug'']
     = [(StartDebugAction, Some False),
        (StepOverDebugAction, Some True),
        (StepIntoDebugAction, Some True),
        (StepOutDebugAction, Some True),
        (RestartDebugAction, None),
        (StopDebugAction, Some True),
        (ContinueAction, Some True),
        (PauseAction, None),
        (ConfigureAction, None),
        (ToggleReplAction, None)]"
  using debug_actions_category_and_context [of "\<lambda>k. True"] by simp

text \<open>C4, counterexample to the claim as stated: the registrations of restart, pause,
  configure and the console toggle carry no key binding context, so nothing in them
  depends on the debug-mode flag.\<close>

theorem debug_actions_context_counterexample:
  "[(ctor d, keybindingContext d). (d, c) \<leftarrow> workbenchActions loaded,
       ctor d \<in> {RestartDebugAction, PauseAction, ConfigureAction, ToggleReplAction}]
     = [(RestartDebugAction, None), (PauseAction, None), (ConfigureAction, None),
        (ToggleReplAction, None)]"
  by (simp add: loaded_def debugContribution_def emptyRegistries_def registerEditorContribution_def
        registerEditorAction_def registerViewlet_def registerPanel_def setDefaultPanelId_def
        registerWorkbenchAction_def registerWorkbenchContribution_def registerSingleton_def
        openViewletKb_def debugCategory_def OpenDebugViewletAction_LABEL_def)

text \<open>C7. The key bindings that the module registers are exactly these: toggle
  breakpoint on F9 in the context of editor text focus; \<open>Show Debug\<close>, under the
  category \<open>View\<close>, on Ctrl/Cmd+Shift+D; start on F5, step over on F10, step into on
  F11, step out on Shift+F11, stop on Shift+F5, continue on F5, and the console toggle on
  Ctrl/Cmd+Shift+I. The one panel registered is the repl panel, and its identifier is set
  as the default panel of the panel registry.\<close>

theorem debug_keybindings:
  "[(ea_ctor d, ea_kbOpts d). d \<leftarrow> editorActions loaded, ea_kbOpts d \<noteq> None]
     = [(ToggleBreakpointAction,
         Some \<lparr> kbContext = EditorTextFocus,
                kbPrimary = \<lparr> primaryMods = {}, primaryKey = F9 \<rparr> \<rparr>)]
   \<and> [(ctor d, keybindings d). (d, c) \<leftarrow> workbenchActions loaded, keybindings d \<noteq> None]
     = [(OpenDebugViewletAction, Some \<lparr> primaryMods = {CtrlCmd, Shift}, primaryKey = KEY_D \<rparr>),
        (StartDebugAction, Some \<lparr> primaryMods = {}, primaryKey = F5 \<rparr>),
        (StepOverDebugAction, Some \<lparr> primaryMods = {}, primaryKey = F10 \<rparr>),
        (StepIntoDebugAction, Some \<lparr> primaryMods = {}, primaryKey = F11 \<rparr>),
        (StepOutDebugAction, Some \<lparr> primaryMods = {Shift}, primaryKey = F11 \<rparr>),
        (StopDebugAction, Some \<lparr> primaryMods = {Shift}, primaryKey = F5 \<rparr>),
        (ContinueAction, Some \<lparr> primaryMods = {}, primaryKey = F5 \<rparr>),
        (ToggleReplAction, Some \<lparr> primaryMods = {CtrlCmd, Shift}, primaryKey = KEY_I \<rparr>)]
   \<and> [(label d, c). (d, c) \<leftarrow> workbenchActions loaded, ctor d = OpenDebugViewletAction]
     = [(Localize ''toggleDebugViewlet'' ''Show Debug'', Localize ''view'' ''View'')]
   \<and> map (\<lambda>p. (pd_ctorName p, pd_id p, pd_name p)) (panels loaded)
     = [(''Repl'', REPL_ID, Localize ''debugConsole'' ''DEBUG CONSOLE'')]
   \<and> defaultPanelId loaded = Some REPL_ID"
  by (simp add: loaded_def debugContribution_def emptyRegistries_def registerEditorContribution_def
        registerEditorAction_def registerViewlet_def registerPanel_def setDefaultPanelId_def
        registerWorkbenchAction_def registerWorkbenchContribution_def registerSingleton_def
        openViewletKb_def debugCategory_def OpenDebugViewletAction_LABEL_def)

text \<open>C7, witness: the default panel of the loaded registries.\<close>

theorem debug_keybindings_witness:
  "defaultPanelId loaded = Some REPL_ID
   \<and> map (\<lambda>p. (pd_ctorName p, pd_id p, pd_name p)) (panels loaded)
       = [(''Repl'', REPL_ID, Localize ''debugConsole'' ''DEBUG CONSOLE'')]"
  using debug_keybindings by simp

end
